theory Spec2Isabelle
  imports Complex_Main "HOL-Library.Sublist"
begin

section \<open>The inventory intelligence engine\<close>

text \<open>
  A shallow embedding of the analytical functions of the inventory engine
  (\<^verbatim>\<open>calculateDemandVelocity\<close>, \<^verbatim>\<open>calculateInventoryCover\<close>,
  \<^verbatim>\<open>calculateAgingScore\<close>, \<^verbatim>\<open>detectDeadStock\<close>,
  \<^verbatim>\<open>findTransferOpportunities\<close>, \<^verbatim>\<open>generateStrategicInsights\<close>,
  \<^verbatim>\<open>generateProductForecasts\<close>).

  Conventions of the embedding:
  \<^item> A JavaScript number is an exact rational (\<^typ>\<open>rat\<close>); the results of
    \<^verbatim>\<open>Math.floor\<close> and \<^verbatim>\<open>Math.ceil\<close> are integers. Rounding of IEEE doubles,
    infinities and overflow are outside the model. The one place where the source produces
    \<^verbatim>\<open>NaN\<close> from well-formed input (arithmetic on an absent field) is modelled by
    \<^typ>\<open>rat option\<close>, \<^term>\<open>None\<close> standing for \<^verbatim>\<open>NaN\<close>.
  \<^item> An instant (\<^verbatim>\<open>Date\<close>) is its number of milliseconds since the Unix epoch. The sale
    provider supplies parseable dates, so \<^verbatim>\<open>new Date(s.date)\<close> is that number.
  \<^item> The clock is a parameter \<open>now\<close>: every \<^verbatim>\<open>new Date()\<close> of one run reads the
    same instant. \<^verbatim>\<open>d.setDate(now.getDate() - n)\<close> moves the instant back by \<open>n\<close> whole
    days of 86400000 ms (a calendar without daylight-saving shifts); the window length
    \<open>n\<close> is a whole number of days.
  \<^item> An optional field (\<^verbatim>\<open>cost\<close>, \<^verbatim>\<open>price\<close>, \<^verbatim>\<open>lastMovementDate\<close>) is an
    \<^typ>\<open>'a option\<close>; \<^term>\<open>None\<close> is \<^verbatim>\<open>undefined\<close>.
  \<^item> The \<^verbatim>\<open>stock\<close> object is an association list from location identifier to quantity,
    in the order of \<^verbatim>\<open>Object.values\<close>; the keys of an object are distinct.
\<close>

subsection \<open>Data model\<close>

type_synonym timestamp = int

record item =
  item_id :: string
  quantity :: rat

record sale =
  date :: timestamp
  locationId :: string
  items :: "item list"

record product =
  pid :: string
  name :: string
  cost :: "rat option"
  price :: "rat option"
  stock :: "(string \<times> rat) list"

definition msPerDay :: int where
  "msPerDay = 1000 * 3600 * 24"

text \<open>\<^verbatim>\<open>d.setDate(now.getDate() - days)\<close> on a date holding \<open>now\<close>.\<close>

definition daysBefore :: "timestamp \<Rightarrow> int \<Rightarrow> timestamp" where
  "daysBefore now days = now - days * msPerDay"

text \<open>\<^verbatim>\<open>x || 0\<close> on an optional number.\<close>

definition orZero :: "rat option \<Rightarrow> rat" where
  "orZero x = (case x of None \<Rightarrow> 0 | Some v \<Rightarrow> v)"

subsection \<open>Metric primitives\<close>

text \<open>\<^verbatim>\<open>sale.items.find(i => i.id === productId)\<close>, then \<^verbatim>\<open>item ? item.quantity : 0\<close>.\<close>

definition findItem :: "string \<Rightarrow> sale \<Rightarrow> item option" where
  "findItem productId s = List.find (\<lambda>i. item_id i = productId) (items s)"

definition itemQty :: "string \<Rightarrow> sale \<Rightarrow> rat" where
  "itemQty productId s = (case findItem productId s of None \<Rightarrow> 0 | Some i \<Rightarrow> quantity i)"

definition calculateDemandVelocity :: "timestamp \<Rightarrow> string \<Rightarrow> sale list \<Rightarrow> int \<Rightarrow> rat" where
  "calculateDemandVelocity now productId sales days =
     (if sales = [] then 0
      else
        let pastDate = daysBefore now days;
            relevantSales = filter (\<lambda>s. pastDate \<le> date s \<and> date s \<le> now) sales;
            totalQty = foldl (\<lambda>acc s. acc + itemQty productId s) 0 relevantSales
        in totalQty / of_int days)"

definition calculateInventoryCover :: "rat \<Rightarrow> rat \<Rightarrow> rat" where
  "calculateInventoryCover stockQuantity velocity =
     (if velocity \<le> 0 then (if stockQuantity > 0 then 999 else 0)
      else stockQuantity / velocity)"

definition calculateAgingScore :: "timestamp \<Rightarrow> timestamp option \<Rightarrow> rat \<Rightarrow> rat" where
  "calculateAgingScore now lastMovementDate coverDays =
     (case lastMovementDate of
        None \<Rightarrow> 0
      | Some d \<Rightarrow>
          let daysSinceMovement = of_int (now - d) / of_int msPerDay;
              safeCoverDays = (if coverDays = 0 then 1 else coverDays)
          in daysSinceMovement / safeCoverDays)"

subsection \<open>Dead-stock detection\<close>

text \<open>\<^verbatim>\<open>s.items.some(i => i.id === product.id)\<close>.\<close>

definition hasItem :: "string \<Rightarrow> sale \<Rightarrow> bool" where
  "hasItem productId s = list_ex (\<lambda>i. item_id i = productId) (items s)"

text \<open>
  The \<^verbatim>\<open>forEach\<close> that keeps the latest date seen, starting from
  \<^verbatim>\<open>new Date(0)\<close>.
\<close>

definition lastSaleDate :: "string \<Rightarrow> sale list \<Rightarrow> timestamp" where
  "lastSaleDate productId sales =
     foldl (\<lambda>lastDate s. if hasItem productId s \<and> date s > lastDate then date s else lastDate)
       0 sales"

text \<open>\<^verbatim>\<open>Object.values(product.stock).reduce((a, b) => a + b, 0)\<close>.\<close>

definition totalStock :: "product \<Rightarrow> rat" where
  "totalStock p = foldl (\<lambda>a b. a + b) 0 (map snd (stock p))"

definition detectDeadStock :: "timestamp \<Rightarrow> product \<Rightarrow> sale list \<Rightarrow> rat \<Rightarrow> bool" where
  "detectDeadStock now p sales thresholdDays =
     (let daysSinceLastSale = of_int (now - lastSaleDate (pid p) sales) / of_int msPerDay
      in totalStock p > 0 \<and> daysSinceLastSale > thresholdDays)"

subsection \<open>Strategic insights\<close>

datatype insight_type = ProfitOptimization | RiskMitigation | CashFlow | Growth

datatype action_type = TRANSFER | LIQUIDATE | REORDER | PRICE_ADJUST

text \<open>
  The \<^verbatim>\<open>metadata\<close> object of an insight: \<^verbatim>\<open>{productId, from, to, qty}\<close> of a transfer,
  \<^verbatim>\<open>{productId, currentStock}\<close> of a liquidation, \<^verbatim>\<open>{productId, reorderQty}\<close> of a
  reorder.
\<close>

datatype metadata =
    TransferMeta string string string int
  | LiquidateMeta string rat
  | ReorderMeta string int

text \<open>
  An insight. The display strings \<^verbatim>\<open>problem\<close>, \<^verbatim>\<open>impact\<close> and
  \<^verbatim>\<open>recommendedAction\<close> are presentation and are left out; of \<^verbatim>\<open>roiImpact\<close> the
  model keeps the number that the string renders (\<open>roiValue\<close>, \<^term>\<open>None\<close> when that
  number is \<^verbatim>\<open>NaN\<close>).
\<close>

record strategicInsight =
  iid :: string
  itype :: insight_type
  roiValue :: "rat option"
  confidenceScore :: rat
  actionType :: action_type
  metadata :: metadata

record locStat =
  l_locId :: string
  l_stock :: rat
  l_velocity :: rat
  l_cover :: rat

definition warehouseIds :: "string list" where
  "warehouseIds = [''warehouse-a'', ''store-downtown'', ''north-branch'', ''city-center-store'']"

text \<open>\<^verbatim>\<open>p.stock[locId] || 0\<close>.\<close>

definition stockAt :: "product \<Rightarrow> string \<Rightarrow> rat" where
  "stockAt p locId = (case map_of (stock p) locId of None \<Rightarrow> 0 | Some q \<Rightarrow> q)"

definition locStats :: "timestamp \<Rightarrow> product \<Rightarrow> sale list \<Rightarrow> locStat list" where
  "locStats now p sales =
     map (\<lambda>locId.
            let stockQuantity = stockAt p locId;
                localSales = filter (\<lambda>s. locationId s = locId) sales;
                velocity = calculateDemandVelocity now (pid p) localSales 30;
                cover = calculateInventoryCover stockQuantity velocity
            in \<lparr>l_locId = locId, l_stock = stockQuantity, l_velocity = velocity, l_cover = cover\<rparr>)
         warehouseIds"

text \<open>The body of the inner loop over a (source, target) pair: no insight or one.\<close>

definition transferInsight :: "product \<Rightarrow> locStat \<Rightarrow> locStat \<Rightarrow> strategicInsight list" where
  "transferInsight p source target =
     (if l_stock source > 10 then
        let transferQty =
              \<lfloor>min (l_stock source * 0.5) ((30 - l_cover target) * l_velocity target)\<rfloor>
        in if transferQty > 0 then
             let costValue = orZero (cost p);
                 priceValue = orZero (price p);
                 margin = priceValue - costValue;
                 estimatedGain = margin * of_int transferQty;
                 transferCost = 50 + of_int transferQty * 2
             in if estimatedGain > transferCost then
                  [\<lparr>iid = ''transfer-'' @ pid p @ ''-'' @ l_locId source @ ''-'' @ l_locId target,
                     itype = ProfitOptimization,
                     roiValue = Some (of_int \<lfloor>estimatedGain - transferCost\<rfloor>),
                     confidenceScore = 0.9,
                     actionType = TRANSFER,
                     metadata = TransferMeta (pid p) (l_locId source) (l_locId target) transferQty\<rparr>]
                else []
           else []
      else [])"

definition productTransfers :: "timestamp \<Rightarrow> sale list \<Rightarrow> product \<Rightarrow> strategicInsight list" where
  "productTransfers now sales p =
     (let stats = locStats now p sales;
          overstocked = filter (\<lambda>l. l_cover l > 60) stats;
          starving = filter (\<lambda>l. l_cover l < 10 \<and> l_velocity l > 0.1) stats
      in concat (map (\<lambda>source. concat (map (\<lambda>target. transferInsight p source target) starving))
                   overstocked))"

definition findTransferOpportunities ::
    "timestamp \<Rightarrow> product list \<Rightarrow> sale list \<Rightarrow> strategicInsight list" where
  "findTransferOpportunities now products sales =
     concat (map (productTransfers now sales) products)"

text \<open>Step B of the generator, for one product.\<close>

definition deadStockInsight :: "timestamp \<Rightarrow> sale list \<Rightarrow> product \<Rightarrow> strategicInsight list" where
  "deadStockInsight now sales p =
     (if detectDeadStock now p sales 90 then
        let total = totalStock p;
            capitalBlocked = total * orZero (cost p)
        in if capitalBlocked > 1000 then
             [\<lparr>iid = ''deadstock-'' @ pid p,
                itype = CashFlow,
                roiValue = Some (capitalBlocked * 0.7),
                confidenceScore = 0.85,
                actionType = LIQUIDATE,
                metadata = LiquidateMeta (pid p) total\<rparr>]
           else []
      else [])"

text \<open>
  \<^verbatim>\<open>p.price - p.cost\<close> with no default: the difference of two numbers, and
  \<^verbatim>\<open>NaN\<close> as soon as one of them is \<^verbatim>\<open>undefined\<close>.
\<close>

definition jsSub :: "rat option \<Rightarrow> rat option \<Rightarrow> rat option" where
  "jsSub a b = (case a of None \<Rightarrow> None
                | Some x \<Rightarrow> (case b of None \<Rightarrow> None | Some y \<Rightarrow> Some (x - y)))"

text \<open>Step C of the generator, for one product.\<close>

definition reorderInsight :: "timestamp \<Rightarrow> sale list \<Rightarrow> product \<Rightarrow> strategicInsight list" where
  "reorderInsight now sales p =
     (let overallDistVelocity = calculateDemandVelocity now (pid p) sales 30;
          total = totalStock p;
          overallCover = calculateInventoryCover total overallDistVelocity
      in if overallCover < 14 \<and> overallDistVelocity > 0.5 then
           let reorderQty = \<lceil>overallDistVelocity * 30\<rceil>
           in [\<lparr>iid = ''reorder-'' @ pid p,
                 itype = RiskMitigation,
                 roiValue = map_option (\<lambda>m. overallDistVelocity * 14 * m)
                              (jsSub (price p) (cost p)),
                 confidenceScore = 0.95,
                 actionType = REORDER,
                 metadata = ReorderMeta (pid p) reorderQty\<rparr>]
         else [])"

fun priorityMap :: "insight_type \<Rightarrow> int" where
  "priorityMap RiskMitigation = 3"
| "priorityMap ProfitOptimization = 2"
| "priorityMap CashFlow = 1"
| "priorityMap Growth = 0"

text \<open>
  The merged list before ranking: transfers, then dead stock, then reorders, each in the
  order of the products.
\<close>

definition collectInsights ::
    "timestamp \<Rightarrow> product list \<Rightarrow> sale list \<Rightarrow> strategicInsight list" where
  "collectInsights now products sales =
     findTransferOpportunities now products sales
     @ concat (map (deadStockInsight now sales) products)
     @ concat (map (reorderInsight now sales) products)"

text \<open>
  \<^verbatim>\<open>insights.sort((a, b) => priorityMap[b.type] - priorityMap[a.type]).slice(0, 5)\<close>.
  \<^verbatim>\<open>Array.prototype.sort\<close> is a stable sort; with this comparator it orders by
  descending priority, which is ascending order of the negated priority.
\<close>

definition generateStrategicInsights ::
    "timestamp \<Rightarrow> product list \<Rightarrow> sale list \<Rightarrow> strategicInsight list" where
  "generateStrategicInsights now products sales =
     take 5 (sort_key (\<lambda>i. - priorityMap (itype i)) (collectInsights now products sales))"

subsection \<open>Forecasts\<close>

datatype trend = HighGrowth | Stable | Declining | New

text \<open>
  A forecast. The \<^verbatim>\<open>history\<close> array, which only feeds a chart, is left out.
\<close>

record productForecast =
  f_productId :: string
  f_name :: string
  currentMonthlySales :: rat
  previousMonthlySales :: rat
  growthRate :: rat
  trend :: trend
  forecastedSales :: int
  confidence :: rat

text \<open>
  The body of \<^verbatim>\<open>productSales.forEach\<close>: the pair is
  \<open>(currentQty, previousQty)\<close>.
\<close>

definition accumulateSale ::
    "timestamp \<Rightarrow> timestamp \<Rightarrow> string \<Rightarrow> rat \<times> rat \<Rightarrow> sale \<Rightarrow> rat \<times> rat" where
  "accumulateSale thirtyDaysAgo sixtyDaysAgo productId acc s =
     (case findItem productId s of
        None \<Rightarrow> acc
      | Some i \<Rightarrow>
          if date s \<ge> thirtyDaysAgo then (fst acc + quantity i, snd acc)
          else if date s \<ge> sixtyDaysAgo then (fst acc, snd acc + quantity i)
          else acc)"

definition forecastProduct :: "timestamp \<Rightarrow> sale list \<Rightarrow> product \<Rightarrow> productForecast" where
  "forecastProduct now sales p =
     (let thirtyDaysAgo = daysBefore now 30;
          sixtyDaysAgo = daysBefore now 60;
          productSales = filter (hasItem (pid p)) sales;
          qtys = foldl (accumulateSale thirtyDaysAgo sixtyDaysAgo (pid p)) (0, 0) productSales;
          currentQty = fst qtys;
          previousQty = snd qtys;
          growth = (if previousQty > 0 then ((currentQty - previousQty) / previousQty) * 100
                    else if currentQty > 0 then 100 else 0);
          trendValue = (if previousQty = 0 \<and> currentQty > 0 then New
                        else if growth \<ge> 20 then HighGrowth
                        else if growth \<le> - 20 then Declining
                        else Stable);
          baseForecast = currentQty;
          momentumFactor = (if trendValue = HighGrowth then 1.2
                            else if trendValue = Declining then 0.9 else 1.0)
      in \<lparr>f_productId = pid p,
          f_name = name p,
          currentMonthlySales = currentQty,
          previousMonthlySales = previousQty,
          growthRate = growth,
          trend = trendValue,
          forecastedSales = \<lceil>baseForecast * momentumFactor\<rceil>,
          confidence = 0.85\<rparr>)"

text \<open>
  \<^verbatim>\<open>products.map(...).sort((a, b) => b.forecastedSales - a.forecastedSales)\<close>: a stable
  sort by descending forecast.
\<close>

definition generateProductForecasts ::
    "timestamp \<Rightarrow> product list \<Rightarrow> sale list \<Rightarrow> productForecast list" where
  "generateProductForecasts now products sales =
     sort_key (\<lambda>f. - forecastedSales f) (map (forecastProduct now sales) products)"

subsection \<open>The specification's reading of the metrics\<close>


text \<open>
  The most recent sale date of a product as the specification words it: the latest date
  among the sales containing the product, the epoch when there is none.
\<close>

definition spec_mostRecentSale :: "string \<Rightarrow> sale list \<Rightarrow> timestamp" where
  "spec_mostRecentSale productId sales =
     (let ds = map date (filter (hasItem productId) sales)
      in if ds = [] then 0 else Max (set ds))"

definition spec_deadStock :: "timestamp \<Rightarrow> product \<Rightarrow> sale list \<Rightarrow> rat \<Rightarrow> bool" where
  "spec_deadStock now p sales thresholdDays =
     (sum_list (map snd (stock p)) > 0
      \<and> of_int (now - spec_mostRecentSale (pid p) sales) / of_int msPerDay > thresholdDays)"

text \<open>The unit economics of a transfer of \<open>q\<close> units of a product.\<close>

definition spec_estimatedGain :: "product \<Rightarrow> int \<Rightarrow> rat" where
  "spec_estimatedGain p q = (orZero (price p) - orZero (cost p)) * of_int q"

definition spec_transferCost :: "int \<Rightarrow> rat" where
  "spec_transferCost q = 50 + 2 * of_int q"

text \<open>
  The two windows of the forecast as the specification words them: the current 30-day
  window holds the sales dated from \<open>now - 30\<close> days up to \<open>now\<close>, the previous window
  those from \<open>now - 60\<close> days up to, and not including, \<open>now - 30\<close> days.
\<close>

definition spec_currentQty :: "timestamp \<Rightarrow> string \<Rightarrow> sale list \<Rightarrow> rat" where
  "spec_currentQty now productId sales =
     (\<Sum>s \<leftarrow> filter (\<lambda>s. now - 30 * msPerDay \<le> date s \<and> date s \<le> now) sales.
        itemQty productId s)"





subsection \<open>Example inputs\<close>

text \<open>
  A snapshot taken 100 days after the epoch. Rice is overstocked in the warehouse and
  sells half a unit a day downtown; salt has never been sold; oil has no stock, sells one
  unit a day, and has no recorded cost.
\<close>

definition exNow :: timestamp where
  "exNow = 100 * msPerDay"

definition rice :: product where
  "rice = \<lparr>pid = ''p1'', name = ''Rice'', cost = Some 5, price = Some 15,
            stock = [(''warehouse-a'', 100), (''store-downtown'', 2)]\<rparr>"

definition salt :: product where
  "salt = \<lparr>pid = ''p2'', name = ''Salt'', cost = Some 10, price = None,
            stock = [(''warehouse-a'', 200)]\<rparr>"

definition oil :: product where
  "oil = \<lparr>pid = ''p3'', name = ''Oil'', cost = None, price = Some 100, stock = []\<rparr>"

definition riceSaleOld :: sale where
  "riceSaleOld = \<lparr>date = 50 * msPerDay, locationId = ''store-downtown'',
                   items = [\<lparr>item_id = ''p1'', quantity = 10\<rparr>]\<rparr>"

definition riceSale :: sale where
  "riceSale = \<lparr>date = 95 * msPerDay, locationId = ''store-downtown'',
                items = [\<lparr>item_id = ''p1'', quantity = 15\<rparr>]\<rparr>"

definition oilSale :: sale where
  "oilSale = \<lparr>date = 99 * msPerDay, locationId = ''warehouse-a'',
               items = [\<lparr>item_id = ''p3'', quantity = 30\<rparr>,
                        \<lparr>item_id = ''p4'', quantity = 30\<rparr>,
                        \<lparr>item_id = ''p5'', quantity = 30\<rparr>]\<rparr>"

definition oilB :: product where
  "oilB = \<lparr>pid = ''p4'', name = ''Oil B'', cost = Some 60, price = Some 100, stock = []\<rparr>"

definition oilC :: product where
  "oilC = \<lparr>pid = ''p5'', name = ''Oil C'', cost = Some 60, price = Some 100, stock = []\<rparr>"

definition saltB :: product where
  "saltB = \<lparr>pid = ''p6'', name = ''Salt B'', cost = Some 10, price = None,
             stock = [(''north-branch'', 300)]\<rparr>"

definition exProducts :: "product list" where
  "exProducts = [rice, salt, oil]"

definition exCatalogue :: "product list" where
  "exCatalogue = [rice, salt, oil, oilB, oilC, saltB]"

definition exSales :: "sale list" where
  "exSales = [riceSaleOld, riceSale, oilSale]"




definition saltSaleFuture :: sale where
  "saltSaleFuture = \<lparr>date = 130 * msPerDay, locationId = ''warehouse-a'',
                      items = [\<lparr>item_id = ''p2'', quantity = 16\<rparr>]\<rparr>"



text \<open>
  A snapshot of today (20759 days after the epoch) with one sale of 1960, 3653 days
  before the epoch.
\<close>

definition grain :: product where
  "grain = \<lparr>pid = ''p9'', name = ''Grain'', cost = Some 10, price = Some 15,
             stock = [(''warehouse-a'', 1)]\<rparr>"

definition grainSale1960 :: sale where
  "grainSale1960 = \<lparr>date = - 3653 * msPerDay, locationId = ''warehouse-a'',
                     items = [\<lparr>item_id = ''p9'', quantity = 1\<rparr>]\<rparr>"

section \<open>Properties\<close>

subsection \<open>Inventory cover\<close>

text \<open>
  C3. For every stock quantity \<open>stock \<ge> 0\<close> and every velocity, the inventory cover is
  \<open>0\<close> when the velocity is not positive and the stock is \<open>0\<close>, the sentinel \<open>999\<close> when
  the velocity is not positive and the stock is positive, and exactly
  \<open>stock / velocity\<close> when the velocity is positive.
\<close>

theorem calculateInventoryCover_cases:
  assumes "0 \<le> stockQuantity"
  shows "(velocity \<le> 0 \<and> stockQuantity = 0 \<longrightarrow>
            calculateInventoryCover stockQuantity velocity = 0)
       \<and> (velocity \<le> 0 \<and> stockQuantity > 0 \<longrightarrow>
            calculateInventoryCover stockQuantity velocity = 999)
       \<and> (velocity > 0 \<longrightarrow>
            calculateInventoryCover stockQuantity velocity = stockQuantity / velocity)"
  using assms by (simp add: calculateInventoryCover_def)

theorem calculateInventoryCover_cases_witness:
  "calculateInventoryCover 0 (-1) = 0
   \<and> calculateInventoryCover 100 0 = 999
   \<and> calculateInventoryCover 2 (1/2) = 4"
  using calculateInventoryCover_cases [of 0 "-1"]
        calculateInventoryCover_cases [of 100 0]
        calculateInventoryCover_cases [of 2 "1/2"]
  by simp

subsection \<open>Aging score\<close>

text \<open>
  C4, as stated: for every cover value the score is the number of days since the last
  movement divided by \<open>max coverDays 1\<close>. The source replaces only a cover of exactly
  \<open>0\<close> by \<open>1\<close>, so the statement fails for a cover strictly between \<open>0\<close> and \<open>1\<close>:
  two days after a movement, with half a day of cover, the score is \<open>4\<close>, not \<open>2\<close>.
\<close>

theorem calculateAgingScore_max_counterexample:
  "calculateAgingScore (2 * msPerDay) (Some 0) (1/2)
     \<noteq> (of_int (2 * msPerDay - 0) / of_int msPerDay) / max (1/2) 1"
  by (simp add: calculateAgingScore_def msPerDay_def)

text \<open>
  C4, amended: the score is \<open>0\<close> when the last-movement date is absent; otherwise it is
  the number of days since the last movement divided by \<open>coverDays\<close>, a cover of exactly
  \<open>0\<close> being replaced by \<open>1\<close>. This is the quotient by \<open>max coverDays 1\<close> whenever
  the cover is \<open>0\<close> or at least \<open>1\<close>.
\<close>

theorem calculateAgingScore_spec:
  "calculateAgingScore now None coverDays = 0
   \<and> calculateAgingScore now (Some d) coverDays =
       (of_int (now - d) / of_int msPerDay) / (if coverDays = 0 then 1 else coverDays)
   \<and> (coverDays = 0 \<or> 1 \<le> coverDays \<longrightarrow>
        calculateAgingScore now (Some d) coverDays =
          (of_int (now - d) / of_int msPerDay) / max coverDays 1)"
  by (auto simp add: calculateAgingScore_def max_def)

theorem calculateAgingScore_spec_witness:
  "calculateAgingScore (10 * msPerDay) None 5 = 0
   \<and> calculateAgingScore (10 * msPerDay) (Some 0) 5 = 2
   \<and> calculateAgingScore (10 * msPerDay) (Some 0) 0 = 10
   \<and> calculateAgingScore (10 * msPerDay) (Some 0) 5
        = (of_int (10 * msPerDay - 0) / of_int msPerDay) / max 5 1"
  using calculateAgingScore_spec [of "10 * msPerDay" 5 0]
        calculateAgingScore_spec [of "10 * msPerDay" 0 0]
  by (simp add: msPerDay_def)

subsection \<open>Demand velocity\<close>


lemma find_qty_distinct:
  "distinct (map item_id xs) \<Longrightarrow>
   (case List.find (\<lambda>i. item_id i = k) xs of None \<Rightarrow> 0 | Some i \<Rightarrow> quantity i)
     = (\<Sum>i \<leftarrow> filter (\<lambda>i. item_id i = k) xs. quantity i)"
proof (induction xs)
  case Nil then show ?case by simp
next
  case (Cons a as)
  show ?case
  proof (cases "item_id a = k")
    case True
    with Cons.prems have "k \<notin> item_id ` set as" by auto
    then have "filter (\<lambda>i. item_id i = k) as = []" by (auto simp: filter_empty_conv)
    with True show ?thesis by simp
  next
    case False
    with Cons show ?thesis by simp
  qed
qed

text \<open>
  A sale contributes the quantity of its first line for the product. When the lines of a
  sale carry distinct product identifiers, that is the total of its lines for the product.
\<close>

lemma itemQty_distinct:
  "distinct (map item_id (items s)) \<Longrightarrow>
   itemQty productId s = (\<Sum>i \<leftarrow> filter (\<lambda>i. item_id i = productId) (items s). quantity i)"
  unfolding itemQty_def findItem_def by (rule find_qty_distinct)



subsection \<open>Dead-stock detection\<close>

lemma foldl_latest:
  "foldl (\<lambda>lastDate s. if P s \<and> date s > lastDate then date s else lastDate) a xs
     = Max (insert a (date ` {s \<in> set xs. P s}))"
proof (induction xs arbitrary: a)
  case Nil then show ?case by simp
next
  case (Cons x xs)
  define S where "S = date ` {s \<in> set xs. P s}"
  have fin: "finite S" by (simp add: S_def)
  have step: "foldl (\<lambda>lastDate s. if P s \<and> date s > lastDate then date s else lastDate) a (x # xs)
     = Max (insert (if P x \<and> a < date x then date x else a) S)"
    by (simp add: Cons.IH S_def)
  show ?case
  proof (cases "P x")
    case True
    then have eq: "date ` {s \<in> set (x # xs). P s} = insert (date x) S"
      by (auto simp: S_def)
    have "Max (insert (if a < date x then date x else a) S) = Max (insert a (insert (date x) S))"
    proof (cases "a < date x")
      case True
      have "Max (insert a (insert (date x) S)) = max a (Max (insert (date x) S))"
        using fin by simp
      moreover have "date x \<le> Max (insert (date x) S)" using fin by simp
      ultimately show ?thesis using True by (simp add: max_def)
    next
      case False
      have "Max (insert (date x) (insert a S)) = max (date x) (Max (insert a S))"
        using fin by simp
      moreover have "a \<le> Max (insert a S)" using fin by simp
      ultimately show ?thesis using False by (simp add: max_def insert_commute)
    qed
    with True show ?thesis unfolding step eq by simp
  next
    case False
    then have eq: "date ` {s \<in> set (x # xs). P s} = S" by (auto simp: S_def)
    from False show ?thesis unfolding step eq by simp
  qed
qed

lemma totalStock_sum: "totalStock p = sum_list (map snd (stock p))"
proof -
  have "foldl (\<lambda>a b. a + b) (a::rat) xs = a + sum_list xs" for a xs
    by (induction xs arbitrary: a) (simp_all add: add.assoc)
  then show ?thesis by (simp add: totalStock_def)
qed

lemma lastSaleDate_Max:
  "lastSaleDate productId sales = Max (insert 0 (date ` {s \<in> set sales. hasItem productId s}))"
  unfolding lastSaleDate_def by (rule foldl_latest)

lemma lastSaleDate_spec:
  assumes "\<forall>s \<in> set sales. hasItem productId s \<longrightarrow> 0 \<le> date s"
  shows "lastSaleDate productId sales = spec_mostRecentSale productId sales"
proof -
  define S where "S = date ` {s \<in> set sales. hasItem productId s}"
  have fin: "finite S" by (simp add: S_def)
  have S: "set (map date (filter (hasItem productId) sales)) = S" by (auto simp: S_def)
  have nonneg: "\<forall>d \<in> S. 0 \<le> d" using assms by (auto simp: S_def)
  have e: "(map date (filter (hasItem productId) sales) = []) = (S = {})"
    using S by (metis set_empty)
  have L: "lastSaleDate productId sales = Max (insert 0 S)"
    by (simp add: lastSaleDate_Max S_def)
  have R: "spec_mostRecentSale productId sales = (if S = {} then 0 else Max S)"
    by (simp only: spec_mostRecentSale_def Let_def e S)
  show ?thesis
  proof (cases "S = {}")
    case True
    then show ?thesis by (simp add: L R)
  next
    case False
    have "Max (insert 0 S) = max 0 (Max S)" using fin False by simp
    moreover have "0 \<le> Max S" using fin False nonneg by (meson Max_in)
    ultimately show ?thesis using False by (simp add: L R)
  qed
qed

lemma detectDeadStock_no_stock:
  "sum_list (map snd (stock p)) = 0 \<Longrightarrow> \<not> detectDeadStock now p sales thresholdDays"
  by (simp add: detectDeadStock_def totalStock_sum)

text \<open>
  The detector agrees with the specification's reading whenever no sale containing the
  product is dated before the epoch.
\<close>

lemma detectDeadStock_no_old_sale:
  assumes "\<forall>s \<in> set sales. hasItem (pid p) s \<longrightarrow> 0 \<le> date s"
  shows "detectDeadStock now p sales thresholdDays = spec_deadStock now p sales thresholdDays"
  using lastSaleDate_spec [OF assms]
  by (simp add: detectDeadStock_def spec_deadStock_def totalStock_sum)

text \<open>
  It also agrees, whatever the sale dates, whenever the threshold is smaller than the
  number of days elapsed since the epoch; the default of 90 days is such a threshold at
  any instant later than 90 days after the epoch.
\<close>

lemma detectDeadStock_within_threshold:
  assumes th: "thresholdDays < of_int now / of_int msPerDay"
  shows "detectDeadStock now p sales thresholdDays = spec_deadStock now p sales thresholdDays"
proof -
  define S where "S = date ` {s \<in> set sales. hasItem (pid p) s}"
  have fin: "finite S" by (simp add: S_def)
  have S: "set (map date (filter (hasItem (pid p)) sales)) = S" by (auto simp: S_def)
  have e: "(map date (filter (hasItem (pid p)) sales) = []) = (S = {})"
    using S by (metis set_empty)
  have L: "lastSaleDate (pid p) sales = Max (insert 0 S)"
    by (simp add: lastSaleDate_Max S_def)
  have R: "spec_mostRecentSale (pid p) sales = (if S = {} then 0 else Max S)"
    by (simp only: spec_mostRecentSale_def Let_def e S)
  have day: "(0::rat) < of_int msPerDay" by (simp add: msPerDay_def)
  show ?thesis
  proof (cases "S = {} \<or> 0 \<le> Max S")
    case True
    then have "lastSaleDate (pid p) sales = spec_mostRecentSale (pid p) sales"
      using fin by (auto simp: L R)
    then show ?thesis
      by (simp add: detectDeadStock_def spec_deadStock_def totalStock_sum)
  next
    case False
    then have ne: "S \<noteq> {}" and neg: "Max S < 0" by auto
    have "Max (insert 0 S) = max 0 (Max S)" using fin ne by simp
    with neg have code: "lastSaleDate (pid p) sales = 0" by (simp add: L)
    have spec: "spec_mostRecentSale (pid p) sales = Max S" using ne by (simp add: R)
    have "(of_int now :: rat) \<le> of_int (now - Max S)" using neg by simp
    then have "(of_int now :: rat) / of_int msPerDay \<le> of_int (now - Max S) / of_int msPerDay"
      using day by (simp add: divide_right_mono)
    with th have far: "thresholdDays < of_int (now - Max S) / of_int msPerDay" by simp
    show ?thesis
      using th far
      by (simp add: detectDeadStock_def spec_deadStock_def totalStock_sum code spec)
  qed
qed

text \<open>
  C5. The flag should be raised exactly when the total stock is positive and the days
  since the most recent sale containing the product (the epoch when it was never sold)
  exceed the threshold. The source looks for the most recent sale date starting from the
  epoch and only moving forward, so a sale dated before the epoch is never found. With
  one unit of grain in stock, a single sale in 1960, a threshold of 21000 days and the
  clock at day 20759, the source takes the epoch as the last sale date, measures 20759
  days and does not raise the flag, although the most recent sale is 24412 days old and
  the flag is due.
\<close>

theorem detectDeadStock_pre_epoch_sale:
  "\<not> detectDeadStock (20759 * msPerDay) grain [grainSale1960] 21000
   \<and> spec_deadStock (20759 * msPerDay) grain [grainSale1960] 21000
   \<and> lastSaleDate (pid grain) [grainSale1960] = 0
   \<and> spec_mostRecentSale (pid grain) [grainSale1960] = - 3653 * msPerDay
   \<and> (of_int (20759 * msPerDay - (- 3653 * msPerDay)) :: rat) / of_int msPerDay = 24412"
  by (simp add: detectDeadStock_def spec_deadStock_def lastSaleDate_def spec_mostRecentSale_def
      totalStock_def hasItem_def grain_def grainSale1960_def msPerDay_def)

subsection \<open>Transfer opportunities\<close>

lemma transferInsight_elem:
  assumes "ins \<in> set (transferInsight p source target)"
  shows "\<exists>q. metadata ins = TransferMeta (pid p) (l_locId source) (l_locId target) q
             \<and> actionType ins = TRANSFER \<and> itype ins = ProfitOptimization
             \<and> spec_estimatedGain p q > spec_transferCost q"
  using assms
  by (auto simp: transferInsight_def Let_def spec_estimatedGain_def spec_transferCost_def
           mult.commute split: if_splits)

lemma findTransferOpportunities_elem:
  assumes "ins \<in> set (findTransferOpportunities now products sales)"
  shows "\<exists>p \<in> set products. \<exists>src tgt q.
           metadata ins = TransferMeta (pid p) src tgt q
           \<and> actionType ins = TRANSFER \<and> itype ins = ProfitOptimization
           \<and> spec_estimatedGain p q > spec_transferCost q"
proof -
  from assms obtain p source target where p: "p \<in> set products"
    and ins: "ins \<in> set (transferInsight p source target)"
    by (auto simp: findTransferOpportunities_def productTransfers_def Let_def)
  from transferInsight_elem [OF ins] p show ?thesis by blast
qed

text \<open>
  C1. Every insight emitted by the transfer finder is a transfer of some quantity \<open>q\<close> of
  one of the given products whose estimated gain, \<open>(price - cost) * q\<close> with an absent
  cost or price counted as \<open>0\<close>, is strictly greater than the transfer cost
  \<open>50 + 2 * q\<close>: no transfer with a gain at or below its cost is emitted.
\<close>

theorem findTransferOpportunities_gain:
  "\<forall>ins \<in> set (findTransferOpportunities now products sales).
     actionType ins = TRANSFER
     \<and> (\<exists>p \<in> set products. \<exists>src tgt q.
           metadata ins = TransferMeta (pid p) src tgt q
           \<and> spec_estimatedGain p q > spec_transferCost q)"
  using findTransferOpportunities_elem by blast

lemma exTransfers:
  "findTransferOpportunities exNow exProducts exSales =
     [\<lparr>iid = ''transfer-p1-warehouse-a-store-downtown'', itype = ProfitOptimization,
        roiValue = Some 54, confidenceScore = 9 / 10, actionType = TRANSFER,
        metadata = TransferMeta ''p1'' ''warehouse-a'' ''store-downtown'' 13\<rparr>]"
  by code_simp

theorem findTransferOpportunities_gain_witness:
  "findTransferOpportunities exNow exProducts exSales =
     [\<lparr>iid = ''transfer-p1-warehouse-a-store-downtown'', itype = ProfitOptimization,
        roiValue = Some 54, confidenceScore = 9 / 10, actionType = TRANSFER,
        metadata = TransferMeta ''p1'' ''warehouse-a'' ''store-downtown'' 13\<rparr>]
   \<and> (\<exists>p \<in> set exProducts. \<exists>src tgt q.
           TransferMeta ''p1'' ''warehouse-a'' ''store-downtown'' 13 = TransferMeta (pid p) src tgt q
           \<and> spec_estimatedGain p q > spec_transferCost q)
   \<and> spec_estimatedGain rice 13 = 130 \<and> spec_transferCost 13 = 76"
  using findTransferOpportunities_gain [of exNow exProducts exSales]
  by (simp add: exTransfers spec_estimatedGain_def spec_transferCost_def rice_def orZero_def)

subsection \<open>Ranking of the insights\<close>

lemma priorityMap_inj: "priorityMap a = priorityMap b \<longleftrightarrow> a = b"
  by (cases a; cases b) simp_all

lemma ranked_sorted:
  "sorted_wrt (\<lambda>a b. priorityMap (itype a) \<ge> priorityMap (itype b))
     (sort_key (\<lambda>i. - priorityMap (itype i)) xs)"
proof -
  have "sorted (map (\<lambda>i. - priorityMap (itype i)) (sort_key (\<lambda>i. - priorityMap (itype i)) xs))"
    by (rule sorted_sort_key)
  then show ?thesis by (simp add: sorted_map)
qed

lemma ranked_stable:
  "filter (\<lambda>i. itype i = t) (sort_key (\<lambda>i. - priorityMap (itype i)) xs)
     = filter (\<lambda>i. itype i = t) xs"
proof -
  have eq: "(\<lambda>i. itype i = t) = (\<lambda>i. - priorityMap (itype i) = - priorityMap t)"
    by (simp add: priorityMap_inj)
  show ?thesis unfolding eq by (rule sort_key_stable)
qed

lemma sorted_wrt_take: "sorted_wrt R xs \<Longrightarrow> sorted_wrt R (take n xs)"
proof (induction xs arbitrary: n)
  case Nil then show ?case by simp
next
  case (Cons x xs)
  show ?case
  proof (cases n)
    case 0 then show ?thesis by simp
  next
    case (Suc m)
    with Cons show ?thesis using set_take_subset [of m xs] by auto
  qed
qed

text \<open>
  C2. The list returned by the insight generator has at most five elements and is sorted
  by descending category priority (Risk Mitigation 3, Profit Optimization 2, Cash Flow 1,
  Growth 0). It is the first five elements of a ranking of the merged list (transfer
  insights, then dead-stock insights, then reorder insights) in which the insights of
  each category keep the order they have in the merged list; so within a category the
  returned insights are the first ones of the merged list, in that order.
\<close>

theorem generateStrategicInsights_ranked:
  "length (generateStrategicInsights now products sales) \<le> 5
   \<and> sorted_wrt (\<lambda>a b. priorityMap (itype a) \<ge> priorityMap (itype b))
        (generateStrategicInsights now products sales)
   \<and> (\<exists>ranked.
         generateStrategicInsights now products sales = take 5 ranked
         \<and> sorted_wrt (\<lambda>a b. priorityMap (itype a) \<ge> priorityMap (itype b)) ranked
         \<and> (\<forall>t. filter (\<lambda>i. itype i = t) ranked
                = filter (\<lambda>i. itype i = t)
                    (findTransferOpportunities now products sales
                     @ concat (map (deadStockInsight now sales) products)
                     @ concat (map (reorderInsight now sales) products))))
   \<and> (\<forall>t. prefix (filter (\<lambda>i. itype i = t) (generateStrategicInsights now products sales))
                 (filter (\<lambda>i. itype i = t)
                    (findTransferOpportunities now products sales
                     @ concat (map (deadStockInsight now sales) products)
                     @ concat (map (reorderInsight now sales) products))))"
proof -
  let ?key = "\<lambda>i. - priorityMap (itype i)"
  let ?all = "collectInsights now products sales"
  let ?ranked = "sort_key ?key ?all"
  have out: "generateStrategicInsights now products sales = take 5 ?ranked"
    by (simp add: generateStrategicInsights_def)
  have all: "?all = findTransferOpportunities now products sales
                     @ concat (map (deadStockInsight now sales) products)
                     @ concat (map (reorderInsight now sales) products)"
    by (simp add: collectInsights_def)
  have len: "length (take 5 ?ranked) \<le> 5" by simp
  have srt: "sorted_wrt (\<lambda>a b. priorityMap (itype a) \<ge> priorityMap (itype b)) ?ranked"
    by (rule ranked_sorted)
  have srt5: "sorted_wrt (\<lambda>a b. priorityMap (itype a) \<ge> priorityMap (itype b)) (take 5 ?ranked)"
    using srt by (rule sorted_wrt_take)
  have stab: "filter (\<lambda>i. itype i = t) ?ranked = filter (\<lambda>i. itype i = t) ?all" for t
    by (rule ranked_stable)
  have pre: "prefix (filter (\<lambda>i. itype i = t) (take 5 ?ranked)) (filter (\<lambda>i. itype i = t) ?all)" for t
    using filter_mono_prefix [OF take_is_prefix, of "\<lambda>i. itype i = t" 5 ?ranked]
    by (simp only: stab)
  have ex: "\<exists>ranked. take 5 ?ranked = take 5 ranked
         \<and> sorted_wrt (\<lambda>a b. priorityMap (itype a) \<ge> priorityMap (itype b)) ranked
         \<and> (\<forall>t. filter (\<lambda>i. itype i = t) ranked = filter (\<lambda>i. itype i = t) ?all)"
    using srt stab by blast
  show ?thesis unfolding out using len srt5 ex pre unfolding all by blast
qed

lemma exCollected:
  "map iid (collectInsights exNow exCatalogue exSales) =
     [''transfer-p1-warehouse-a-store-downtown'', ''deadstock-p2'', ''deadstock-p6'',
      ''reorder-p3'', ''reorder-p4'', ''reorder-p5'']"
  by code_simp

lemma exRanked:
  "map iid (generateStrategicInsights exNow exCatalogue exSales) =
     [''reorder-p3'', ''reorder-p4'', ''reorder-p5'',
      ''transfer-p1-warehouse-a-store-downtown'', ''deadstock-p2'']"
  by code_simp

theorem generateStrategicInsights_ranked_witness:
  "map iid (findTransferOpportunities exNow exCatalogue exSales
            @ concat (map (deadStockInsight exNow exSales) exCatalogue)
            @ concat (map (reorderInsight exNow exSales) exCatalogue)) =
     [''transfer-p1-warehouse-a-store-downtown'', ''deadstock-p2'', ''deadstock-p6'',
      ''reorder-p3'', ''reorder-p4'', ''reorder-p5'']
   \<and> map iid (generateStrategicInsights exNow exCatalogue exSales) =
     [''reorder-p3'', ''reorder-p4'', ''reorder-p5'',
      ''transfer-p1-warehouse-a-store-downtown'', ''deadstock-p2'']
   \<and> length (generateStrategicInsights exNow exCatalogue exSales) \<le> 5"
  using generateStrategicInsights_ranked [of exNow exCatalogue exSales] exCollected
  by (simp add: exRanked collectInsights_def)

subsection \<open>Kinds of insight\<close>

lemma deadStockInsight_elem:
  "ins \<in> set (deadStockInsight now sales p) \<Longrightarrow>
     actionType ins = LIQUIDATE \<and> itype ins = CashFlow"
  by (auto simp: deadStockInsight_def Let_def split: if_splits)

lemma reorderInsight_elem:
  "ins \<in> set (reorderInsight now sales p) \<Longrightarrow>
     actionType ins = REORDER \<and> itype ins = RiskMitigation"
  by (auto simp: reorderInsight_def Let_def split: if_splits)

lemma collectInsights_elem:
  assumes "ins \<in> set (collectInsights now products sales)"
  shows "(actionType ins = TRANSFER \<and> itype ins = ProfitOptimization)
       \<or> (actionType ins = LIQUIDATE \<and> itype ins = CashFlow)
       \<or> (actionType ins = REORDER \<and> itype ins = RiskMitigation)"
proof -
  from assms consider
      (T) "ins \<in> set (findTransferOpportunities now products sales)"
    | (D) p where "ins \<in> set (deadStockInsight now sales p)"
    | (R) p where "ins \<in> set (reorderInsight now sales p)"
    by (auto simp: collectInsights_def)
  then show ?thesis
  proof cases
    case T
    then show ?thesis using findTransferOpportunities_elem by blast
  next
    case D
    then show ?thesis using deadStockInsight_elem by blast
  next
    case R
    then show ?thesis using reorderInsight_elem by blast
  qed
qed

text \<open>
  C10. No insight returned by the generator has type Growth or action PRICE_ADJUST: each
  one is a TRANSFER of type Profit Optimization, a LIQUIDATE of type Cash Flow, or a
  REORDER of type Risk Mitigation.
\<close>

theorem generateStrategicInsights_kinds:
  "\<forall>ins \<in> set (generateStrategicInsights now products sales).
     itype ins \<noteq> Growth \<and> actionType ins \<noteq> PRICE_ADJUST
     \<and> ((actionType ins = TRANSFER \<and> itype ins = ProfitOptimization)
        \<or> (actionType ins = LIQUIDATE \<and> itype ins = CashFlow)
        \<or> (actionType ins = REORDER \<and> itype ins = RiskMitigation))"
proof
  fix ins
  assume "ins \<in> set (generateStrategicInsights now products sales)"
  then have "ins \<in> set (collectInsights now products sales)"
    using set_take_subset [of 5 "sort_key (\<lambda>i. - priorityMap (itype i)) (collectInsights now products sales)"]
    by (auto simp: generateStrategicInsights_def)
  from collectInsights_elem [OF this]
  show "itype ins \<noteq> Growth \<and> actionType ins \<noteq> PRICE_ADJUST
     \<and> ((actionType ins = TRANSFER \<and> itype ins = ProfitOptimization)
        \<or> (actionType ins = LIQUIDATE \<and> itype ins = CashFlow)
        \<or> (actionType ins = REORDER \<and> itype ins = RiskMitigation))"
    by auto
qed

lemma exKinds:
  "map (\<lambda>i. (actionType i, itype i)) (generateStrategicInsights exNow exCatalogue exSales) =
     [(REORDER, RiskMitigation), (REORDER, RiskMitigation), (REORDER, RiskMitigation),
      (TRANSFER, ProfitOptimization), (LIQUIDATE, CashFlow)]"
  by code_simp

theorem generateStrategicInsights_kinds_witness:
  "map (\<lambda>i. (actionType i, itype i)) (generateStrategicInsights exNow exCatalogue exSales) =
     [(REORDER, RiskMitigation), (REORDER, RiskMitigation), (REORDER, RiskMitigation),
      (TRANSFER, ProfitOptimization), (LIQUIDATE, CashFlow)]"
  using generateStrategicInsights_kinds [of exNow exCatalogue exSales]
  by (simp add: exKinds)

subsection \<open>Absent cost and price\<close>

text \<open>
  C9. The transfer finder and the dead-stock scan read cost and price through
  \<^verbatim>\<open>|| 0\<close>; the reorder scan subtracts the raw fields. For oil, which has a price of
  \<open>100\<close>, no recorded cost and a velocity of one unit a day, the profit-protection
  estimate is therefore \<^verbatim>\<open>NaN\<close>, while the estimate with the absent cost counted as
  \<open>0\<close> is \<open>1 * 14 * (100 - 0) = 1400\<close>.
\<close>

theorem reorder_estimate_absent_cost:
  "generateStrategicInsights exNow [oil] [oilSale] =
     [\<lparr>iid = ''reorder-p3'', itype = RiskMitigation, roiValue = None,
        confidenceScore = 19 / 20, actionType = REORDER,
        metadata = ReorderMeta ''p3'' 30\<rparr>]
   \<and> calculateDemandVelocity exNow (pid oil) [oilSale] 30 * 14
        * (orZero (price oil) - orZero (cost oil)) = 1400"
  by code_simp

subsection \<open>Forecasts\<close>










lemma currentQty_future_sale:
  "map currentMonthlySales (generateProductForecasts exNow [salt] [saltSaleFuture]) = [16]
   \<and> map trend (generateProductForecasts exNow [salt] [saltSaleFuture]) = [New]
   \<and> spec_currentQty exNow (pid salt) [saltSaleFuture] = 0"
  by code_simp









end
